theory Spec2Isabelle
  imports Main
begin

section \<open>The notebook \<open>Basic_RAG_Pipeline.ipynb\<close>\<close>

text \<open>
  The repository is one Jupyter notebook. Its code cells load a file, join the loaded
  texts into one more \<open>Document\<close>, split the loaded documents into nodes, build a vector
  index over the nodes, turn the index into a query engine and ask it two questions.

  Every step except the joining is a call into the library \<open>llama_index\<close> (or into
  \<open>common.utils\<close> for the API key). The library is not part of the notebook, so its
  operations are the fields of a record \<open>llama_index\<close> below, each one a function of the
  arguments the notebook passes and of a state \<open>'w\<close> that stands for everything outside
  the notebook's own variables (the library's global settings, the remote embedding and
  language-model services, the file system). A call returns the new outside state and
  either a value or the exception the library raised.

  The notebook's own variables are the fields of the record \<open>kernel\<close>; a variable that has
  not been assigned yet is \<open>None\<close>, and reading it raises \<open>NameError\<close>. A code cell is a
  block of statements; a raised exception ends the cell and the run, as "Run All" does.
  The \<open>import\<close> statements are taken to succeed and are not modelled.
\<close>

subsection \<open>Values\<close>

text \<open>
  \<open>llama_index.schema.Document\<close>: the notebook reads \<open>doc.text\<close> and prints the document,
  which shows its \<open>Doc ID\<close>.
\<close>

record Document =
  doc_id :: string
  doc_text :: string

text \<open>
  The value of \<open>query_engine.query(...)\<close>. The notebook uses \<open>str(response)\<close> and
  \<open>response.source_nodes[i].get_text()\<close>: \<open>source_nodes\<close> holds the texts that
  \<open>get_text()\<close> gives, in the order of the Python list.
\<close>

record Response =
  str :: string
  source_nodes :: "string list"

text \<open>Exceptions: the two the notebook's own expressions can raise, and the library's.\<close>

datatype 'x exn = NameError string | IndexError | Raised 'x

text \<open>What a cell shows: the arguments of a \<open>print\<close> call, or the value of its last expression.\<close>

datatype pyval = PyType string | PyInt nat | PyDoc Document | PyStr string

datatype display = Print "pyval list" | Out pyval

subsection \<open>The library, as the notebook calls it\<close>

text \<open>
  \<^item> \<open>get_openai_api_key\<close>, \<open>set_api_key\<close>: \<open>openai.api_key = common.utils.get_openai_api_key()\<close>
  \<^item> \<open>load_data\<close>: \<open>SimpleDirectoryReader(input_files=...).load_data()\<close>
  \<^item> \<open>Document\<close>: the constructor \<open>Document(text=...)\<close>. It builds a value (and picks its id)
    and has no effect on the outside state, so it is a plain function of the text
  \<^item> \<open>OpenAI\<close>: the constructor \<open>OpenAI(model=...)\<close>
  \<^item> \<open>from_defaults\<close>: \<open>SimpleNodeParser.from_defaults(chunk_size=..., chunk_overlap=...)\<close>
  \<^item> \<open>get_nodes_from_documents\<close>: \<open>node_parser.get_nodes_from_documents(...)\<close>
  \<^item> \<open>VectorStoreIndex\<close>: the constructor \<open>VectorStoreIndex(nodes)\<close>
  \<^item> \<open>as_query_engine\<close>: \<open>index.as_query_engine()\<close>, no argument given
  \<^item> \<open>query\<close>: \<open>query_engine.query(question)\<close>
\<close>

record ('w, 'x, 'l, 'p, 'n, 'i, 'q) llama_index =
  get_openai_api_key :: "'w \<Rightarrow> ('x + string) \<times> 'w"
  set_api_key :: "string \<Rightarrow> 'w \<Rightarrow> 'w"
  load_data :: "string list \<Rightarrow> 'w \<Rightarrow> ('x + Document list) \<times> 'w"
  Document :: "string \<Rightarrow> Document"
  OpenAI :: "string \<Rightarrow> 'w \<Rightarrow> ('x + 'l) \<times> 'w"
  from_defaults :: "int \<Rightarrow> int \<Rightarrow> 'w \<Rightarrow> ('x + 'p) \<times> 'w"
  get_nodes_from_documents :: "'p \<Rightarrow> Document list \<Rightarrow> 'w \<Rightarrow> ('x + 'n list) \<times> 'w"
  VectorStoreIndex :: "'n list \<Rightarrow> 'w \<Rightarrow> ('x + 'i) \<times> 'w"
  as_query_engine :: "'i \<Rightarrow> 'w \<Rightarrow> ('x + 'q) \<times> 'w"
  query :: "'q \<Rightarrow> string \<Rightarrow> 'w \<Rightarrow> ('x + Response) \<times> 'w"

subsection \<open>The kernel state\<close>

text \<open>
  One field for each variable the notebook assigns, the outside state \<open>world\<close>, and \<open>shown\<close>,
  the outputs of the cells so far in the order they appeared.
\<close>

record ('w, 'l, 'p, 'n, 'i, 'q) kernel =
  world :: 'w
  documents :: "Document list option"
  document :: "Document option"
  llm :: "'l option"
  node_parser :: "'p option"
  nodes :: "'n list option"
  index :: "'i option"
  query_engine :: "'q option"
  response :: "Response option"
  shown :: "display list"

text \<open>A freshly started kernel: no variable assigned, nothing shown.\<close>

definition startup :: "'w \<Rightarrow> ('w, 'l, 'p, 'n, 'i, 'q) kernel" where
  "startup w =
     \<lparr>world = w, documents = None, document = None, llm = None, node_parser = None,
      nodes = None, index = None, query_engine = None, response = None, shown = []\<rparr>"

subsection \<open>Statements\<close>

text \<open>
  A statement takes the kernel state to the exception it raised, if any, and the new state.
\<close>

type_synonym ('x, 's) stmt = "'s \<Rightarrow> 'x exn option \<times> 's"

text \<open>Statements in sequence: the first exception ends the block.\<close>

fun block :: "('x, 's) stmt list \<Rightarrow> ('x, 's) stmt" where
  "block [] s = (None, s)"
| "block (c # cs) s =
     (case c s of
        (Some e, s') \<Rightarrow> (Some e, s')
      | (None, s') \<Rightarrow> block cs s')"

text \<open>Reading a variable: \<open>NameError\<close> when it has not been assigned.\<close>

definition name :: "string \<Rightarrow> ('s \<Rightarrow> 'a option) \<Rightarrow> ('a \<Rightarrow> ('x, 's) stmt) \<Rightarrow> ('x, 's) stmt" where
  "name n var k s = (case var s of None \<Rightarrow> (Some (NameError n), s) | Some v \<Rightarrow> k v s)"

text \<open>
  A library call whose value is assigned to a variable: the call runs on the outside state;
  when it raises, nothing is assigned.
\<close>

definition call ::
  "('w \<Rightarrow> ('x + 'a) \<times> 'w) \<Rightarrow>
   ('a \<Rightarrow> ('w, 'l, 'p, 'n, 'i, 'q) kernel \<Rightarrow> ('w, 'l, 'p, 'n, 'i, 'q) kernel) \<Rightarrow>
   ('x, ('w, 'l, 'p, 'n, 'i, 'q) kernel) stmt" where
  "call f assign s =
     (case f (world s) of
        (Inl x, w) \<Rightarrow> (Some (Raised x), s\<lparr>world := w\<rparr>)
      | (Inr a, w) \<Rightarrow> (None, assign a (s\<lparr>world := w\<rparr>)))"

text \<open>Showing an output.\<close>

definition emit :: "display \<Rightarrow> ('x, ('w, 'l, 'p, 'n, 'i, 'q) kernel) stmt" where
  "emit v s = (None, s\<lparr>shown := shown s @ [v]\<rparr>)"

text \<open>Python's \<open>xs[i]\<close> for the indices \<open>0\<close> and \<open>1\<close> the notebook uses.\<close>

definition getitem :: "'a list \<Rightarrow> nat \<Rightarrow> ('a \<Rightarrow> ('x, 's) stmt) \<Rightarrow> ('x, 's) stmt" where
  "getitem xs i k s = (if i < length xs then k (xs ! i) s else (Some IndexError, s))"

text \<open>Python's \<open>sep.join(xs)\<close>.\<close>

fun join :: "string \<Rightarrow> string list \<Rightarrow> string" where
  "join sep [] = []"
| "join sep [x] = x"
| "join sep (x # y # ys) = x @ sep @ join sep (y # ys)"

subsection \<open>The code cells\<close>

text \<open>
  The cells are numbered by their execution counts, which follow their order in the notebook
  (there is no cell 8).

  \<^verbatim>\<open>openai.api_key = common.utils.get_openai_api_key()\<close>
\<close>

definition cell_1 ::
  "('w, 'x, 'l, 'p, 'n, 'i, 'q) llama_index \<Rightarrow> ('x, ('w, 'l, 'p, 'n, 'i, 'q) kernel) stmt" where
  "cell_1 L = call (get_openai_api_key L) (\<lambda>key s. s\<lparr>world := set_api_key L key (world s)\<rparr>)"

text \<open>
  \<^verbatim>\<open>documents = SimpleDirectoryReader(input_files=["Henry.txt"]).load_data()\<close>
\<close>

definition cell_2 ::
  "('w, 'x, 'l, 'p, 'n, 'i, 'q) llama_index \<Rightarrow> ('x, ('w, 'l, 'p, 'n, 'i, 'q) kernel) stmt" where
  "cell_2 L = call (load_data L [''Henry.txt'']) (\<lambda>ds s. s\<lparr>documents := Some ds\<rparr>)"

text \<open>
  \<^verbatim>\<open>print(type(documents), "\n")\<close>
  \<^verbatim>\<open>print(len(documents), "\n")\<close>
  \<^verbatim>\<open>print(type(documents[0]))\<close>
  \<^verbatim>\<open>print(documents[0])\<close>
\<close>

definition cell_3 :: "('x, ('w, 'l, 'p, 'n, 'i, 'q) kernel) stmt" where
  "cell_3 = block
     [name ''documents'' documents (\<lambda>ds. emit (Print [PyType ''list'', PyStr [CHR 0x0A]])),
      name ''documents'' documents (\<lambda>ds. emit (Print [PyInt (length ds), PyStr [CHR 0x0A]])),
      name ''documents'' documents (\<lambda>ds. getitem ds 0
        (\<lambda>d. emit (Print [PyType ''llama_index.schema.Document'']))),
      name ''documents'' documents (\<lambda>ds. getitem ds 0 (\<lambda>d. emit (Print [PyDoc d])))]"

text \<open>
  The concatenation:

  \<^verbatim>\<open>document = Document(text="\n\n".join([doc.text for doc in documents]))\<close>
\<close>

definition cell_4 ::
  "('w, 'x, 'l, 'p, 'n, 'i, 'q) llama_index \<Rightarrow> ('x, ('w, 'l, 'p, 'n, 'i, 'q) kernel) stmt" where
  "cell_4 L = name ''documents'' documents (\<lambda>ds s.
     (None, s\<lparr>document := Some (Document L (join [CHR 0x0A, CHR 0x0A] (map doc_text ds)))\<rparr>))"

text \<open>
  \<^verbatim>\<open>llm = OpenAI(model="gpt-3.5-turbo")\<close>
  \<^verbatim>\<open>node_parser = SimpleNodeParser.from_defaults(chunk_size=64,chunk_overlap=2)\<close>
  \<^verbatim>\<open>nodes = node_parser.get_nodes_from_documents(documents)\<close>
  \<^verbatim>\<open>index = VectorStoreIndex(nodes)\<close>
\<close>

definition cell_5 ::
  "('w, 'x, 'l, 'p, 'n, 'i, 'q) llama_index \<Rightarrow> ('x, ('w, 'l, 'p, 'n, 'i, 'q) kernel) stmt" where
  "cell_5 L = block
     [call (OpenAI L ''gpt-3.5-turbo'') (\<lambda>m s. s\<lparr>llm := Some m\<rparr>),
      call (from_defaults L 64 2) (\<lambda>p s. s\<lparr>node_parser := Some p\<rparr>),
      name ''node_parser'' node_parser (\<lambda>p. name ''documents'' documents (\<lambda>ds.
        call (get_nodes_from_documents L p ds) (\<lambda>ns s. s\<lparr>nodes := Some ns\<rparr>))),
      name ''nodes'' nodes (\<lambda>ns.
        call (VectorStoreIndex L ns) (\<lambda>i s. s\<lparr>index := Some i\<rparr>))]"

text \<open>
  \<^verbatim>\<open>query_engine = index.as_query_engine()\<close>
\<close>

definition cell_6 ::
  "('w, 'x, 'l, 'p, 'n, 'i, 'q) llama_index \<Rightarrow> ('x, ('w, 'l, 'p, 'n, 'i, 'q) kernel) stmt" where
  "cell_6 L = name ''index'' index (\<lambda>i.
     call (as_query_engine L i) (\<lambda>q s. s\<lparr>query_engine := Some q\<rparr>))"

text \<open>
  Cells 7 and 9 differ in the question only:

  \<^verbatim>\<open>response = query_engine.query(question)\<close>
  \<^verbatim>\<open>print(str(response))\<close>
\<close>

definition ask ::
  "('w, 'x, 'l, 'p, 'n, 'i, 'q) llama_index \<Rightarrow> string \<Rightarrow>
   ('x, ('w, 'l, 'p, 'n, 'i, 'q) kernel) stmt" where
  "ask L question = block
     [name ''query_engine'' query_engine (\<lambda>q.
        call (query L q question) (\<lambda>r s. s\<lparr>response := Some r\<rparr>)),
      name ''response'' response (\<lambda>r. emit (Print [PyStr (str r)]))]"

definition cell_7 ::
  "('w, 'x, 'l, 'p, 'n, 'i, 'q) llama_index \<Rightarrow> ('x, ('w, 'l, 'p, 'n, 'i, 'q) kernel) stmt" where
  "cell_7 L = ask L ''Who is the pretty boy in Hong Kong?''"

definition cell_9 ::
  "('w, 'x, 'l, 'p, 'n, 'i, 'q) llama_index \<Rightarrow> ('x, ('w, 'l, 'p, 'n, 'i, 'q) kernel) stmt" where
  "cell_9 L = ask L ''Who is the beautiful person in Hong Kong?''"

text \<open>
  \<^verbatim>\<open>response.source_nodes[0].get_text()\<close>
\<close>

definition cell_10 :: "('x, ('w, 'l, 'p, 'n, 'i, 'q) kernel) stmt" where
  "cell_10 = name ''response'' response (\<lambda>r. getitem (source_nodes r) 0 (\<lambda>t. emit (Out (PyStr t))))"

text \<open>
  \<^verbatim>\<open>response.source_nodes[1].get_text()\<close>
\<close>

definition cell_11 :: "('x, ('w, 'l, 'p, 'n, 'i, 'q) kernel) stmt" where
  "cell_11 = name ''response'' response (\<lambda>r. getitem (source_nodes r) 1 (\<lambda>t. emit (Out (PyStr t))))"

subsection \<open>Running the notebook\<close>

text \<open>The cells before the concatenation and the cells after it.\<close>

definition loading ::
  "('w, 'x, 'l, 'p, 'n, 'i, 'q) llama_index \<Rightarrow> ('x, ('w, 'l, 'p, 'n, 'i, 'q) kernel) stmt list" where
  "loading L = [cell_1 L, cell_2 L, cell_3]"

definition indexing_and_querying ::
  "('w, 'x, 'l, 'p, 'n, 'i, 'q) llama_index \<Rightarrow> ('x, ('w, 'l, 'p, 'n, 'i, 'q) kernel) stmt list" where
  "indexing_and_querying L = [cell_5 L, cell_6 L, cell_7 L, cell_9 L, cell_10, cell_11]"

text \<open>The notebook as it is, and the notebook with cell 4 left out.\<close>

definition run_all ::
  "('w, 'x, 'l, 'p, 'n, 'i, 'q) llama_index \<Rightarrow> ('x, ('w, 'l, 'p, 'n, 'i, 'q) kernel) stmt" where
  "run_all L = block (loading L @ [cell_4 L] @ indexing_and_querying L)"

definition run_without_concatenation ::
  "('w, 'x, 'l, 'p, 'n, 'i, 'q) llama_index \<Rightarrow> ('x, ('w, 'l, 'p, 'n, 'i, 'q) kernel) stmt" where
  "run_without_concatenation L = block (loading L @ indexing_and_querying L)"

subsection \<open>A small library to run the notebook on\<close>

text \<open>
  An instance of \<open>llama_index\<close> for running the model: the outside state counts the calls
  that read a file or reach a remote service, the loader finds two documents, a node is the text of a document,
  the index and the query engine are the list of nodes, and a query answers with the question
  and cites the first two nodes.
\<close>

definition toy ::
  "(nat, unit, string, int \<times> int, string, string list, string list) llama_index" where
  "toy =
     \<lparr>get_openai_api_key = (\<lambda>w. (Inr ''sk'', w)),
      set_api_key = (\<lambda>key w. w),
      load_data = (\<lambda>files w.
        (Inr [\<lparr>doc_id = ''d0'', doc_text = ''A B''\<rparr>, \<lparr>doc_id = ''d1'', doc_text = ''C''\<rparr>],
         Suc w)),
      Document = (\<lambda>t. \<lparr>doc_id = ''d2'', doc_text = t\<rparr>),
      OpenAI = (\<lambda>m w. (Inr m, w)),
      from_defaults = (\<lambda>size overlap w. (Inr (size, overlap), w)),
      get_nodes_from_documents = (\<lambda>p ds w. (Inr (map doc_text ds), w)),
      VectorStoreIndex = (\<lambda>ns w. (Inr ns, Suc w)),
      as_query_engine = (\<lambda>i w. (Inr i, w)),
      query = (\<lambda>q question w. (Inr \<lparr>str = question, source_nodes = take 2 q\<rparr>, Suc w))\<rparr>"

text \<open>The same library with an embedding service that is down: building the index raises.\<close>

definition toy_failing ::
  "(nat, unit, string, int \<times> int, string, string list, string list) llama_index" where
  "toy_failing = toy\<lparr>VectorStoreIndex := (\<lambda>ns w. (Inl (), Suc w))\<rparr>"

section \<open>Properties\<close>

subsection \<open>Blocks\<close>

lemma block_append:
  "block (cs @ ds) s =
     (case block cs s of (Some e, s') \<Rightarrow> (Some e, s') | (None, s') \<Rightarrow> block ds s')"
  by (induction cs arbitrary: s) (auto split: prod.splits option.splits)

text \<open>
  A statement does not depend on \<open>document\<close> when running it with another value in that
  variable changes nothing but that variable in the result. A block of such statements is
  such a statement.
\<close>

lemma block_frame:
  assumes "\<And>c s. c \<in> set cs \<Longrightarrow>
             c (s\<lparr>document := d\<rparr>) = apsnd (\<lambda>s'. s'\<lparr>document := d\<rparr>) (c s)"
  shows "block cs (s\<lparr>document := d\<rparr>) = apsnd (\<lambda>s'. s'\<lparr>document := d\<rparr>) (block cs s)"
  using assms
proof (induction cs arbitrary: s)
  case Nil
  then show ?case by simp
next
  case (Cons c cs)
  have head: "c (s\<lparr>document := d\<rparr>) = apsnd (\<lambda>s'. s'\<lparr>document := d\<rparr>) (c s)"
    using Cons.prems by simp
  show ?case
  proof (cases "c s")
    case (Pair e s')
    show ?thesis
    proof (cases e)
      case None
      with Pair head Cons show ?thesis by simp
    next
      case (Some x)
      with Pair head show ?thesis by simp
    qed
  qed
qed

subsection \<open>The cells after the concatenation\<close>

lemma cell_5_frame:
  "cell_5 L (s\<lparr>document := d\<rparr>) = apsnd (\<lambda>s'. s'\<lparr>document := d\<rparr>) (cell_5 L s)"
  by (simp add: cell_5_def call_def name_def split: prod.splits sum.splits option.splits)

lemma cell_6_frame:
  "cell_6 L (s\<lparr>document := d\<rparr>) = apsnd (\<lambda>s'. s'\<lparr>document := d\<rparr>) (cell_6 L s)"
  by (simp add: cell_6_def call_def name_def split: prod.splits sum.splits option.splits)

lemma ask_frame:
  "ask L q (s\<lparr>document := d\<rparr>) = apsnd (\<lambda>s'. s'\<lparr>document := d\<rparr>) (ask L q s)"
  by (simp add: ask_def call_def name_def emit_def split: prod.splits sum.splits option.splits)

lemma cell_10_frame:
  "cell_10 (s\<lparr>document := d\<rparr>) = apsnd (\<lambda>s'. s'\<lparr>document := d\<rparr>) (cell_10 s)"
  by (simp add: cell_10_def getitem_def name_def emit_def split: option.splits)

lemma cell_11_frame:
  "cell_11 (s\<lparr>document := d\<rparr>) = apsnd (\<lambda>s'. s'\<lparr>document := d\<rparr>) (cell_11 s)"
  by (simp add: cell_11_def getitem_def name_def emit_def split: option.splits)

lemma indexing_and_querying_frame:
  "block (indexing_and_querying L) (s\<lparr>document := d\<rparr>) =
   apsnd (\<lambda>s'. s'\<lparr>document := d\<rparr>) (block (indexing_and_querying L) s)"
  by (rule block_frame)
    (auto simp: indexing_and_querying_def cell_7_def cell_9_def
       cell_5_frame cell_6_frame ask_frame cell_10_frame cell_11_frame)

text \<open>In particular these cells never assign \<open>document\<close>.\<close>

lemma indexing_and_querying_keeps_document:
  "document (snd (block (indexing_and_querying L) s)) = document s"
proof -
  have "block (indexing_and_querying L) (s\<lparr>document := document s\<rparr>) =
        apsnd (\<lambda>s'. s'\<lparr>document := document s\<rparr>) (block (indexing_and_querying L) s)"
    by (rule indexing_and_querying_frame)
  then have "block (indexing_and_querying L) s =
        apsnd (\<lambda>s'. s'\<lparr>document := document s\<rparr>) (block (indexing_and_querying L) s)"
    by simp
  then have "document (snd (block (indexing_and_querying L) s)) =
        document (snd (apsnd (\<lambda>s'. s'\<lparr>document := document s\<rparr>)
          (block (indexing_and_querying L) s)))"
    by simp
  then show ?thesis by simp
qed

subsection \<open>The cells before the concatenation\<close>

lemma loading_keeps_document:
  "document (snd (block (loading L) s)) = document s"
  by (auto simp: loading_def cell_1_def cell_2_def cell_3_def call_def name_def emit_def
      getitem_def split: prod.splits sum.splits option.splits if_splits)

text \<open>When the first three cells have run without an exception, \<open>documents\<close> is assigned.\<close>

lemma loading_binds_documents:
  assumes "block (loading L) s = (None, s')"
  shows "documents s' \<noteq> None"
  using assms
  by (auto simp: loading_def cell_1_def cell_2_def cell_3_def call_def name_def emit_def
      getitem_def split: prod.splits sum.splits option.splits if_splits)

text \<open>Then cell 4 raises nothing and assigns \<open>document\<close>, and only \<open>document\<close>.\<close>

lemma cell_4_assigns:
  assumes "documents s \<noteq> None"
  shows "\<exists>d. cell_4 L s = (None, s\<lparr>document := Some d\<rparr>)"
  using assms by (auto simp: cell_4_def name_def)

subsection \<open>The concatenated document is dead\<close>

text \<open>
  C10. The \<open>Document\<close> that cell 4 builds by joining the texts of the loaded documents with
  two newlines is never used: the nodes, the index and the answers to the queries are
  computed from \<open>documents\<close> alone. From any kernel state and for any library, running the
  notebook with cell 4 and running it without cell 4 end with the same exception or with
  none, and in states that differ in the variable \<open>document\<close> at most: \<open>nodes\<close>, \<open>index\<close>,
  \<open>query_engine\<close>, \<open>response\<close>, every other variable, everything the cells have shown and
  the outside state are the same. Moreover the cells after cell 4 give the same result
  whatever value \<open>document\<close> holds.
\<close>

theorem concatenated_document_never_used:
  "fst (run_all L s) = fst (run_without_concatenation L s) \<and>
   (snd (run_all L s))\<lparr>document := document s\<rparr> = snd (run_without_concatenation L s) \<and>
   nodes (snd (run_all L s)) = nodes (snd (run_without_concatenation L s)) \<and>
   index (snd (run_all L s)) = index (snd (run_without_concatenation L s)) \<and>
   response (snd (run_all L s)) = response (snd (run_without_concatenation L s)) \<and>
   shown (snd (run_all L s)) = shown (snd (run_without_concatenation L s)) \<and>
   world (snd (run_all L s)) = world (snd (run_without_concatenation L s)) \<and>
   block (indexing_and_querying L) (s\<lparr>document := d\<rparr>) =
     apsnd (\<lambda>s'. s'\<lparr>document := d\<rparr>) (block (indexing_and_querying L) s)"
proof -
  obtain e s1 where loaded: "block (loading L) s = (e, s1)"
    by (cases "block (loading L) s")
  have same: "document s1 = document s"
    using loading_keeps_document [where L = L and s = s] loaded by simp
  have "fst (run_all L s) = fst (run_without_concatenation L s) \<and>
        (snd (run_all L s))\<lparr>document := document s\<rparr> = snd (run_without_concatenation L s)"
  proof (cases e)
    case (Some x)
    with loaded same show ?thesis
      by (simp add: run_all_def run_without_concatenation_def block_append)
  next
    case None
    with loaded have "documents s1 \<noteq> None"
      using loading_binds_documents by blast
    then obtain c where joined: "cell_4 L s1 = (None, s1\<lparr>document := Some c\<rparr>)"
      using cell_4_assigns by blast
    obtain e' s2 where rest: "block (indexing_and_querying L) s1 = (e', s2)"
      by (cases "block (indexing_and_querying L) s1")
    have kept: "document s2 = document s"
      using indexing_and_querying_keeps_document [where L = L and s = s1] rest same by simp
    have without: "run_without_concatenation L s = (e', s2)"
      using loaded None rest by (simp add: run_without_concatenation_def block_append)
    have full: "run_all L s = (e', s2\<lparr>document := Some c\<rparr>)"
      using loaded None joined rest
        indexing_and_querying_frame [where L = L and s = s1 and d = "Some c"]
      by (simp add: run_all_def block_append)
    from without full kept show ?thesis by simp
  qed
  then have ends: "fst (run_all L s) = fst (run_without_concatenation L s)"
    and states: "(snd (run_all L s))\<lparr>document := document s\<rparr> =
                 snd (run_without_concatenation L s)"
    by simp_all
  have "nodes ((snd (run_all L s))\<lparr>document := document s\<rparr>) = nodes (snd (run_all L s))"
    and "index ((snd (run_all L s))\<lparr>document := document s\<rparr>) = index (snd (run_all L s))"
    and "response ((snd (run_all L s))\<lparr>document := document s\<rparr>) =
         response (snd (run_all L s))"
    and "shown ((snd (run_all L s))\<lparr>document := document s\<rparr>) = shown (snd (run_all L s))"
    and "world ((snd (run_all L s))\<lparr>document := document s\<rparr>) = world (snd (run_all L s))"
    by simp_all
  with states have "nodes (snd (run_all L s)) = nodes (snd (run_without_concatenation L s))"
    and "index (snd (run_all L s)) = index (snd (run_without_concatenation L s))"
    and "response (snd (run_all L s)) = response (snd (run_without_concatenation L s))"
    and "shown (snd (run_all L s)) = shown (snd (run_without_concatenation L s))"
    and "world (snd (run_all L s)) = world (snd (run_without_concatenation L s))"
    by simp_all
  with ends states show ?thesis
    using indexing_and_querying_frame [where L = L and s = s and d = d] by simp
qed

subsection \<open>Two runs\<close>

lemmas run_defs =
  run_all_def run_without_concatenation_def loading_def indexing_and_querying_def
  cell_1_def cell_2_def cell_3_def cell_4_def cell_5_def cell_6_def cell_7_def cell_9_def
  cell_10_def cell_11_def ask_def call_def name_def emit_def getitem_def startup_def

text \<open>The whole notebook on the small library, from a fresh kernel.\<close>

lemma toy_run:
  "run_all toy (startup 0) =
     (None,
      \<lparr>world = 4,
       documents = Some [\<lparr>doc_id = ''d0'', doc_text = ''A B''\<rparr>,
                         \<lparr>doc_id = ''d1'', doc_text = ''C''\<rparr>],
       document = Some \<lparr>doc_id = ''d2'', doc_text = ''A B'' @ [CHR 0x0A, CHR 0x0A] @ ''C''\<rparr>,
       llm = Some ''gpt-3.5-turbo'',
       node_parser = Some (64, 2),
       nodes = Some [''A B'', ''C''],
       index = Some [''A B'', ''C''],
       query_engine = Some [''A B'', ''C''],
       response = Some \<lparr>str = ''Who is the beautiful person in Hong Kong?'',
                         source_nodes = [''A B'', ''C'']\<rparr>,
       shown =
         [Print [PyType ''list'', PyStr [CHR 0x0A]],
          Print [PyInt 2, PyStr [CHR 0x0A]],
          Print [PyType ''llama_index.schema.Document''],
          Print [PyDoc \<lparr>doc_id = ''d0'', doc_text = ''A B''\<rparr>],
          Print [PyStr ''Who is the pretty boy in Hong Kong?''],
          Print [PyStr ''Who is the beautiful person in Hong Kong?''],
          Out (PyStr ''A B''),
          Out (PyStr ''C'')]\<rparr>)"
  by (simp add: run_defs toy_def)

text \<open>
  By the theorem, the run without cell 4 ends in the same state, except that \<open>document\<close>
  was never assigned.
\<close>

theorem concatenated_document_never_used_witness:
  "run_without_concatenation toy (startup 0) =
     (None,
      \<lparr>world = 4,
       documents = Some [\<lparr>doc_id = ''d0'', doc_text = ''A B''\<rparr>,
                         \<lparr>doc_id = ''d1'', doc_text = ''C''\<rparr>],
       document = None,
       llm = Some ''gpt-3.5-turbo'',
       node_parser = Some (64, 2),
       nodes = Some [''A B'', ''C''],
       index = Some [''A B'', ''C''],
       query_engine = Some [''A B'', ''C''],
       response = Some \<lparr>str = ''Who is the beautiful person in Hong Kong?'',
                         source_nodes = [''A B'', ''C'']\<rparr>,
       shown =
         [Print [PyType ''list'', PyStr [CHR 0x0A]],
          Print [PyInt 2, PyStr [CHR 0x0A]],
          Print [PyType ''llama_index.schema.Document''],
          Print [PyDoc \<lparr>doc_id = ''d0'', doc_text = ''A B''\<rparr>],
          Print [PyStr ''Who is the pretty boy in Hong Kong?''],
          Print [PyStr ''Who is the beautiful person in Hong Kong?''],
          Out (PyStr ''A B''),
          Out (PyStr ''C'')]\<rparr>)"
proof -
  let ?s = "startup 0 :: (nat, string, int \<times> int, string, string list, string list) kernel"
  have "fst (run_all toy ?s) = fst (run_without_concatenation toy ?s)"
    and "(snd (run_all toy ?s))\<lparr>document := document ?s\<rparr> =
         snd (run_without_concatenation toy ?s)"
    using concatenated_document_never_used [where L = toy and s = ?s and d = None]
    by simp_all
  then show ?thesis
    using toy_run
    by (cases "run_without_concatenation toy ?s") (simp add: startup_def)
qed

text \<open>
  When building the index raises, the run ends in cell 5: the documents have been shown and
  joined, there is no index, and no question has been asked.
\<close>

lemma toy_failing_run:
  "run_all toy_failing (startup 0) =
     (Some (Raised ()),
      \<lparr>world = 2,
       documents = Some [\<lparr>doc_id = ''d0'', doc_text = ''A B''\<rparr>,
                         \<lparr>doc_id = ''d1'', doc_text = ''C''\<rparr>],
       document = Some \<lparr>doc_id = ''d2'', doc_text = ''A B'' @ [CHR 0x0A, CHR 0x0A] @ ''C''\<rparr>,
       llm = Some ''gpt-3.5-turbo'',
       node_parser = Some (64, 2),
       nodes = Some [''A B'', ''C''],
       index = None,
       query_engine = None,
       response = None,
       shown =
         [Print [PyType ''list'', PyStr [CHR 0x0A]],
          Print [PyInt 2, PyStr [CHR 0x0A]],
          Print [PyType ''llama_index.schema.Document''],
          Print [PyDoc \<lparr>doc_id = ''d0'', doc_text = ''A B''\<rparr>]]\<rparr>)"
  by (simp add: run_defs toy_failing_def toy_def)

end
